theory Spec2Isabelle
  imports Main
begin

section \<open>Python values and exceptions\<close>

text \<open>
  The rotation notebook and its two service classes are Python. Every exception the
  code can raise is a value of type \<open>error\<close>; a computation that may raise returns
  \<open>error + 'a\<close> with \<open>Inl\<close> for the exception. The code itself only ever raises
  \<open>ValueError\<close> with a message; the other constructors are the exceptions Python raises
  on its own (an unbound local, a missing key, a subscript on the wrong type, a body that
  is not JSON) and those raised inside the SDK or the HTTP library (\<open>ApiError\<close>).
\<close>

datatype error =
    ValueError string
  | UnboundLocalError string
  | KeyError string
  | IndexError
  | TypeError
  | AttributeError
  | JSONDecodeError
  | ApiError string

fun and_then :: "error + 'a \<Rightarrow> ('a \<Rightarrow> error + 'b) \<Rightarrow> error + 'b" where
  "and_then (Inl e) f = Inl e"
| "and_then (Inr x) f = f x"

text \<open>The values \<open>json.loads\<close> produces. A parsed object is a dict: its keys are distinct,
  and \<open>map_of\<close> reads it.\<close>

datatype json =
    JNull
  | JBool bool
  | JNum int
  | JString string
  | JArray "json list"
  | JObject "(string \<times> json) list"

text \<open>\<open>v[key]\<close> with a string key: only a dict supports it.\<close>

fun py_getitem :: "json \<Rightarrow> string \<Rightarrow> error + json" where
  "py_getitem (JObject kvs) k = (case map_of kvs k of None \<Rightarrow> Inl (KeyError k) | Some v \<Rightarrow> Inr v)"
| "py_getitem v k = Inl TypeError"

text \<open>\<open>v[0]\<close>: the first element of a list, the first character of a string, the key
  \<open>0\<close> of a dict (which a parsed JSON object never has).\<close>

fun py_getitem0 :: "json \<Rightarrow> error + json" where
  "py_getitem0 (JArray []) = Inl IndexError"
| "py_getitem0 (JArray (x # xs)) = Inr x"
| "py_getitem0 (JString []) = Inl IndexError"
| "py_getitem0 (JString (c # cs)) = Inr (JString [c])"
| "py_getitem0 (JObject kvs) = Inl (KeyError ''0'')"
| "py_getitem0 v = Inl TypeError"

fun py_len :: "json \<Rightarrow> error + nat" where
  "py_len (JArray xs) = Inr (length xs)"
| "py_len (JString s) = Inr (length s)"
| "py_len (JObject kvs) = Inr (length kvs)"
| "py_len v = Inl TypeError"

text \<open>\<open>for i in v\<close>: the elements of a list, the keys of a dict, the characters of a string.\<close>

fun py_iter :: "json \<Rightarrow> error + json list" where
  "py_iter (JArray xs) = Inr xs"
| "py_iter (JObject kvs) = Inr (map (\<lambda>kv. JString (fst kv)) kvs)"
| "py_iter (JString s) = Inr (map (\<lambda>c. JString [c]) s)"
| "py_iter v = Inl TypeError"

text \<open>\<open>d.get(key)\<close>: \<open>None\<close> for a missing key; only a dict has the method.\<close>

fun py_dict_get :: "json \<Rightarrow> string \<Rightarrow> error + json" where
  "py_dict_get (JObject kvs) k = (case map_of kvs k of None \<Rightarrow> Inr JNull | Some v \<Rightarrow> Inr v)"
| "py_dict_get v k = Inl AttributeError"

text \<open>The decimal text of an integer, as an f-string prints it.\<close>

definition digit_char :: "nat \<Rightarrow> char" where
  "digit_char d = ''0123456789'' ! d"

fun str_nat :: "nat \<Rightarrow> string" where
  "str_nat n = (if n < 10 then [digit_char n] else str_nat (n div 10) @ [digit_char (n mod 10)])"

declare str_nat.simps [simp del]

definition str_int :: "int \<Rightarrow> string" where
  "str_int i = (if i < 0 then CHR ''-'' # str_nat (nat (- i)) else str_nat (nat i))"

section \<open>The Databricks service (services/databricks\_service.py)\<close>

text \<open>
  The workspace client of the Databricks SDK is the collaborator: each of its calls is a
  field of the record, giving the call's result or the exception the SDK raises.
\<close>

record service_principal =
  sp_application_id :: string
  sp_id :: string

record workspace_client =
  service_principals_list :: "string \<Rightarrow> error + service_principal list"
  service_principals_create :: "string \<Rightarrow> error + service_principal"
  service_principal_secrets_list :: "string \<Rightarrow> error + string list"
  service_principal_secrets_create :: "string \<Rightarrow> string \<Rightarrow> error + string"
  warehouses_set_permissions :: "string \<Rightarrow> string \<Rightarrow> error + unit"

record DatabricksService =
  dbx_workspace_client :: workspace_client
  max_secrets :: nat

definition CreateClient :: "workspace_client \<Rightarrow> DatabricksService" where
  "CreateClient wc = \<lparr>dbx_workspace_client = wc, max_secrets = 5\<rparr>"

text \<open>The loop of \<open>CheckServicePrincipal\<close>: every principal of the listing overwrites both
  variables; \<open>service_principal_id\<close> starts as \<open>None\<close>, the application id starts unbound.\<close>

fun principals_loop ::
  "service_principal list \<Rightarrow> string option \<Rightarrow> string option \<Rightarrow> string option \<times> string option" where
  "principals_loop [] app_id spid = (app_id, spid)"
| "principals_loop (sp # sps) app_id spid =
     principals_loop sps (Some (sp_application_id sp)) (Some (sp_id sp))"

definition CheckServicePrincipal :: "DatabricksService \<Rightarrow> string \<Rightarrow> error + string \<times> string" where
  "CheckServicePrincipal self service_principal_name =
     and_then (service_principals_list (dbx_workspace_client self)
                 (''displayName eq '' @ service_principal_name)) (\<lambda>service_principals.
       case principals_loop service_principals None None of
         (app_id, None) \<Rightarrow>
           and_then (service_principals_create (dbx_workspace_client self) service_principal_name)
             (\<lambda>created. Inr (sp_application_id created, sp_id created))
       | (None, Some spid) \<Rightarrow> Inl (UnboundLocalError ''service_principal_application_id'')
       | (Some app, Some spid) \<Rightarrow> Inr (app, spid))"

definition cap_message :: "string \<Rightarrow> nat \<Rightarrow> string" where
  "cap_message service_principal_id cap =
     ''Service Principal '' @ service_principal_id @ '' has already '' @ str_nat cap
     @ '' secrets. Creating more than '' @ str_nat cap
     @ '' secrets is not supported. Please delete some of the secrets to continue.''"

definition CheckServicePrincipalSecret :: "DatabricksService \<Rightarrow> string \<Rightarrow> error + unit" where
  "CheckServicePrincipalSecret self service_principal_id =
     and_then (service_principal_secrets_list (dbx_workspace_client self) service_principal_id)
       (\<lambda>list_service_principal_secrets.
          if length list_service_principal_secrets \<ge> max_secrets self
          then Inl (ValueError (cap_message service_principal_id (max_secrets self)))
          else Inr ())"

definition GenerateServicePrincipalSecret ::
  "DatabricksService \<Rightarrow> string \<Rightarrow> string \<Rightarrow> error + string" where
  "GenerateServicePrincipalSecret self service_principal_id life_time =
     service_principal_secrets_create (dbx_workspace_client self) service_principal_id
       (life_time @ ''s'')"

definition GrantPermissionsOnWarehouse ::
  "DatabricksService \<Rightarrow> string \<Rightarrow> string \<Rightarrow> error + unit" where
  "GrantPermissionsOnWarehouse self service_principal_id warehouse_id =
     warehouses_set_permissions (dbx_workspace_client self) service_principal_id warehouse_id"

section \<open>The Power BI service (services/powerbi\_service.py)\<close>

text \<open>
  An HTTP response as the code reads it: the status code, the text, and what
  \<open>json.loads\<close> makes of the text (\<open>None\<close> when the text is not JSON, where
  \<open>json.loads\<close> raises).
\<close>

record response =
  status_code :: int
  text_of :: string
  body :: "json option"

definition json_loads :: "response \<Rightarrow> error + json" where
  "json_loads r = (case body r of None \<Rightarrow> Inl JSONDecodeError | Some j \<Rightarrow> Inr j)"

text \<open>
  The reporting API is the collaborator. Each request the service sends is a field: the
  response to it as a function of what the request's URL and body are built from, or the
  exception the HTTP library raises. \<open>token_post\<close> gives \<open>response.json()\<close> of the token
  request for a tenant id, client id and client secret.
\<close>

record reporting_api =
  token_post :: "string \<Rightarrow> string \<Rightarrow> string \<Rightarrow> error + json"
  get_gateway :: "json \<Rightarrow> error + response"
  get_datasets :: "json \<Rightarrow> error + response"
  get_groups :: "string \<Rightarrow> error + response"
  get_datasources :: "json \<Rightarrow> json \<Rightarrow> error + response"
  post_takeover :: "json \<Rightarrow> json \<Rightarrow> error + response"
  post_refreshes :: "json \<Rightarrow> json \<Rightarrow> json \<Rightarrow> error + response"
  patch_datasource :: "json \<Rightarrow> json \<Rightarrow> json \<Rightarrow> error + response"

record PowerbiService =
  pbi_api :: reporting_api
  client_id :: string
  tenant_id :: string
  client_secret :: string

definition CreateCredential :: "reporting_api \<Rightarrow> string \<Rightarrow> string \<Rightarrow> string \<Rightarrow> PowerbiService" where
  "CreateCredential api tenant client secret =
     \<lparr>pbi_api = api, client_id = client, tenant_id = tenant, client_secret = secret\<rparr>"

definition GetAccessToken :: "PowerbiService \<Rightarrow> error + json" where
  "GetAccessToken self =
     and_then (token_post (pbi_api self) (tenant_id self) (client_id self) (client_secret self))
       (\<lambda>j. py_dict_get j ''access_token'')"

text \<open>\<open>"Bearer " + token\<close> raises \<open>TypeError\<close> unless the token is a string.\<close>

definition GetRequestHeader :: "PowerbiService \<Rightarrow> error + (string \<times> string) list" where
  "GetRequestHeader self =
     and_then (GetAccessToken self) (\<lambda>accessToken.
       case accessToken of
         JString t \<Rightarrow> Inr [(''Content-Type'', ''application/json''),
                           (''Authorization'', ''Bearer '' @ t)]
       | _ \<Rightarrow> Inl TypeError)"

definition GetGatewayPublicKey :: "PowerbiService \<Rightarrow> json \<Rightarrow> error + json" where
  "GetGatewayPublicKey self GatewayId =
     and_then (GetRequestHeader self) (\<lambda>headers.
     and_then (get_gateway (pbi_api self) GatewayId) (\<lambda>response.
     and_then (json_loads response) (\<lambda>temp.
       py_getitem temp ''publicKey'')))"

text \<open>The loop of \<open>GetDatasetId\<close>; the third argument is the local \<open>DatasetId\<close>, unbound
  (\<open>None\<close>) until a name matches.\<close>

fun dataset_loop :: "json list \<Rightarrow> string \<Rightarrow> json option \<Rightarrow> error + json option" where
  "dataset_loop [] dataset_name DatasetId = Inr DatasetId"
| "dataset_loop (i # rest) dataset_name DatasetId =
     and_then (py_getitem i ''name'') (\<lambda>n.
       if n = JString dataset_name
       then and_then (py_getitem i ''id'') (\<lambda>v. dataset_loop rest dataset_name (Some v))
       else dataset_loop rest dataset_name DatasetId)"

definition GetDatasetId :: "PowerbiService \<Rightarrow> json \<Rightarrow> string \<Rightarrow> error + json" where
  "GetDatasetId self WorkspaceId dataset_name =
     and_then (GetRequestHeader self) (\<lambda>headers.
     and_then (get_datasets (pbi_api self) WorkspaceId) (\<lambda>response.
     and_then (json_loads response) (\<lambda>temp.
     and_then (py_getitem temp ''value'') (\<lambda>v.
     and_then (py_iter v) (\<lambda>entries.
     and_then (dataset_loop entries dataset_name None) (\<lambda>DatasetId.
       case DatasetId of
         None \<Rightarrow> Inl (UnboundLocalError ''DatasetId'')
       | Some d \<Rightarrow> Inr d))))))"

definition workspace_status_message :: "response \<Rightarrow> string" where
  "workspace_status_message r =
     ''Error retrieving the workspace id, the status code is '' @ str_int (status_code r)
     @ '' and the error message is '' @ text_of r"

definition workspace_missing_message :: "string \<Rightarrow> string \<Rightarrow> string" where
  "workspace_missing_message workspace_name client =
     ''Workspace '' @ workspace_name @ '' does not exist or the service principal '' @ client
     @ '' does not have access to it''"

definition GetWorkspaceId :: "PowerbiService \<Rightarrow> string \<Rightarrow> error + json" where
  "GetWorkspaceId self workspace_name =
     and_then (GetRequestHeader self) (\<lambda>headers.
     and_then (get_groups (pbi_api self) workspace_name) (\<lambda>response.
       if status_code response \<noteq> 200
       then Inl (ValueError (workspace_status_message response))
       else
         and_then (json_loads response) (\<lambda>j.
         and_then (py_getitem j ''value'') (\<lambda>v.
         and_then (py_len v) (\<lambda>n.
           if n = 0
           then Inl (ValueError (workspace_missing_message workspace_name (client_id self)))
           else
             and_then (json_loads response) (\<lambda>temp.
             and_then (py_getitem temp ''value'') (\<lambda>v'.
             and_then (py_getitem0 v') (\<lambda>first.
               py_getitem first ''id''))))))))"

text \<open>The loop of \<open>GetDatasetDatasource\<close>, with the locals \<open>GatewayId\<close> and
  \<open>DataSourceId\<close>.\<close>

fun datasource_loop ::
  "json list \<Rightarrow> json option \<Rightarrow> json option \<Rightarrow> error + json option \<times> json option" where
  "datasource_loop [] GatewayId DataSourceId = Inr (GatewayId, DataSourceId)"
| "datasource_loop (i # rest) GatewayId DataSourceId =
     and_then (py_getitem i ''connectionDetails'') (\<lambda>details.
     and_then (py_getitem details ''kind'') (\<lambda>kind.
       if kind = JString ''Databricks''
       then
         and_then (py_getitem i ''gatewayId'') (\<lambda>g.
         and_then (py_getitem i ''datasourceId'') (\<lambda>d.
           datasource_loop rest (Some g) (Some d)))
       else datasource_loop rest GatewayId DataSourceId))"

definition GetDatasetDatasource :: "PowerbiService \<Rightarrow> json \<Rightarrow> json \<Rightarrow> error + json \<times> json" where
  "GetDatasetDatasource self WorkspaceId DatasetId =
     and_then (GetRequestHeader self) (\<lambda>headers.
     and_then (get_datasources (pbi_api self) WorkspaceId DatasetId) (\<lambda>response.
     and_then (json_loads response) (\<lambda>temp.
     and_then (py_getitem temp ''value'') (\<lambda>v.
     and_then (py_iter v) (\<lambda>entries.
     and_then (datasource_loop entries None None) (\<lambda>found.
       case found of
         (None, d) \<Rightarrow> Inl (UnboundLocalError ''GatewayId'')
       | (Some g, None) \<Rightarrow> Inl (UnboundLocalError ''DataSourceId'')
       | (Some g, Some d) \<Rightarrow> Inr (g, d)))))))"

definition takeover_message :: "string \<Rightarrow> string" where
  "takeover_message client =
     ''Service Principal '' @ client @ '' does not have permissions to take over the dataset''"

definition TakOverDataset :: "PowerbiService \<Rightarrow> json \<Rightarrow> json \<Rightarrow> error + unit" where
  "TakOverDataset self WorkspaceId DatasetId =
     and_then (GetRequestHeader self) (\<lambda>headers.
     and_then (post_takeover (pbi_api self) WorkspaceId DatasetId) (\<lambda>response.
       if status_code response = 200 then Inr ()
       else Inl (ValueError (takeover_message (client_id self)))))"

definition refresh_message :: "response \<Rightarrow> string" where
  "refresh_message r =
     ''Error refreshing the dataset, the status code is '' @ str_int (status_code r)
     @ '' and the error message is '' @ text_of r"

definition RefreshDataset :: "PowerbiService \<Rightarrow> json \<Rightarrow> json \<Rightarrow> error + unit" where
  "RefreshDataset self WorkspaceId DatasetId =
     and_then (GetRequestHeader self) (\<lambda>headers.
     and_then (post_refreshes (pbi_api self) WorkspaceId DatasetId
                 (JObject [(''notifyOption'', JString ''NoNotification'')])) (\<lambda>response.
       if status_code response \<noteq> 202 then Inl (ValueError (refresh_message response))
       else Inr ()))"

definition update_message :: "response \<Rightarrow> string" where
  "update_message r =
     ''Error updating the datasource, the status code is '' @ str_int (status_code r)
     @ '' and the error message is '' @ text_of r"

definition credential_details :: "string \<Rightarrow> string \<Rightarrow> json" where
  "credential_details Credentials EncryptionAlgorithm =
     JObject [(''credentialDetails'', JObject
       [(''credentialType'', JString ''Basic''),
        (''credentials'', JString Credentials),
        (''encryptedConnection'', JString ''Encrypted''),
        (''encryptionAlgorithm'', JString EncryptionAlgorithm),
        (''privacyLevel'', JString ''Organizational''),
        (''useEndUserOAuth2Credentials'', JString ''False'')])]"

definition UpdateDatasetDatasource ::
  "PowerbiService \<Rightarrow> json \<Rightarrow> json \<Rightarrow> string \<Rightarrow> string \<Rightarrow> error + unit" where
  "UpdateDatasetDatasource self GatewayId DataSourceId Credentials EncryptionAlgorithm =
     and_then (GetRequestHeader self) (\<lambda>headers.
     and_then (patch_datasource (pbi_api self) GatewayId DataSourceId
                 (credential_details Credentials EncryptionAlgorithm)) (\<lambda>response.
       if status_code response \<noteq> 200 then Inl (ValueError (update_message response))
       else Inr ()))"

section \<open>The notebook (Update-M2M-OAuth-Credentials.py)\<close>

text \<open>
  The notebook runs its cells in order and stops at the first cell that raises. A run is
  the list of service-method calls it made, each with how it ended, and the run's own
  result. The widgets are the notebook's parameters.
\<close>

record widgets =
  ServicePrincipal :: string
  WarehouseId :: string
  Workspace :: string
  Dataset :: string
  GatewayType :: string
  Lifetime :: string
  RefreshDataset_widget :: string
  SecretScope :: string
  ClientIdSecret :: string
  SecretSecret :: string
  TenantIdSecret :: string

text \<open>
  What the notebook runs against: the SDK's workspace client, the reporting API, the secret
  store behind \<open>dbutils.secrets.get\<close>, and the credential encryption of
  \<open>services/encrypt_credentials_service.py\<close>, which is not among the sources and is
  taken as a parameter: \<open>EncodeCredentials key text\<close> is what
  \<open>EncryptCredentialsService(key).EncodeCredentials(text)\<close> returns or raises.
\<close>

record notebook_env =
  nb_workspace_client :: workspace_client
  nb_reporting_api :: reporting_api
  secrets_get :: "string \<Rightarrow> string \<Rightarrow> error + string"
  EncodeCredentials :: "json \<Rightarrow> string \<Rightarrow> error + string"

datatype call =
    Call_CheckServicePrincipal string
  | Call_CheckServicePrincipalSecret string
  | Call_GenerateServicePrincipalSecret string string
  | Call_GrantPermissionsOnWarehouse string string
  | Call_GetWorkspaceId string
  | Call_GetDatasetId json string
  | Call_TakOverDataset json json
  | Call_GetDatasetDatasource json json
  | Call_GetGatewayPublicKey json
  | Call_EncodeCredentials json string
  | Call_UpdateDatasetDatasource json json string string
  | Call_RefreshDataset json json

datatype outcome = Returned | Raised error

type_synonym 'a run = "(call \<times> outcome) list \<times> (error + 'a)"

definition outcome_of :: "error + 'a \<Rightarrow> outcome" where
  "outcome_of r = (case r of Inl e \<Rightarrow> Raised e | Inr x \<Rightarrow> Returned)"

definition invoke :: "call \<Rightarrow> error + 'a \<Rightarrow> 'a run" where
  "invoke c r = ([(c, outcome_of r)], r)"

definition silent :: "error + 'a \<Rightarrow> 'a run" where
  "silent r = ([], r)"

definition then_run :: "'a run \<Rightarrow> ('a \<Rightarrow> 'b run) \<Rightarrow> 'b run" where
  "then_run m f =
     (case snd m of
        Inl e \<Rightarrow> (fst m, Inl e)
      | Inr x \<Rightarrow> (fst m @ fst (f x), snd (f x)))"

text \<open>Cell 14, the two texts it builds. The single-quoted text goes to the encryption, the
  double-quoted one is sent as it is.\<close>

definition onpremises_text :: "string \<Rightarrow> string \<Rightarrow> string" where
  \<open>onpremises_text ServicePrincipalApplicationId ServicePrincipalSecret =
     ''{'credentialData':[{'name':'username','value':'' @ [CHR 0x27]
     @ ServicePrincipalApplicationId
     @ [CHR 0x27] @ ''},{'name':'password','value':'' @ [CHR 0x27]
     @ ServicePrincipalSecret
     @ [CHR 0x27] @ ''}]}''\<close>

definition plaintext_credentials :: "string \<Rightarrow> string \<Rightarrow> string" where
  \<open>plaintext_credentials ServicePrincipalApplicationId ServicePrincipalSecret =
     ''{"credentialData":[{"name":"username", "value": "'' @ ServicePrincipalApplicationId
     @ ''"},{"name":"password", "value": "'' @ ServicePrincipalSecret @ ''"}]}''\<close>

text \<open>Cell 14: the credentials and the encryption algorithm, in this order.\<close>

definition construct_payload ::
  "notebook_env \<Rightarrow> PowerbiService \<Rightarrow> string \<Rightarrow> json \<Rightarrow> string \<Rightarrow> string \<Rightarrow> (string \<times> string) run" where
  "construct_payload env pbi_svc gateway_type GatewayId ServicePrincipalApplicationId
       ServicePrincipalSecret =
     (if gateway_type = ''Onpremises'' then
        then_run (invoke (Call_GetGatewayPublicKey GatewayId)
                    (GetGatewayPublicKey pbi_svc GatewayId)) (\<lambda>public_key.
        then_run (invoke (Call_EncodeCredentials public_key
                      (onpremises_text ServicePrincipalApplicationId ServicePrincipalSecret))
                    (EncodeCredentials env public_key
                      (onpremises_text ServicePrincipalApplicationId ServicePrincipalSecret)))
          (\<lambda>Credentials. silent (Inr (Credentials, ''RSA-OAEP''))))
      else
        silent (Inr (plaintext_credentials ServicePrincipalApplicationId ServicePrincipalSecret,
                     ''None'')))"

text \<open>Cells 12 to 16, from the resolved workspace and dataset on.\<close>

definition publish_tasks ::
  "notebook_env \<Rightarrow> widgets \<Rightarrow> PowerbiService \<Rightarrow> string \<Rightarrow> string \<Rightarrow> json \<Rightarrow> json \<Rightarrow> unit run" where
  "publish_tasks env w pbi_svc ServicePrincipalApplicationId ServicePrincipalSecret
       WorkspaceId DatasetId =
     then_run (if GatewayType w = ''NoGateway''
               then invoke (Call_TakOverDataset WorkspaceId DatasetId)
                      (TakOverDataset pbi_svc WorkspaceId DatasetId)
               else silent (Inr ())) (\<lambda>u.
     then_run (invoke (Call_GetDatasetDatasource WorkspaceId DatasetId)
                 (GetDatasetDatasource pbi_svc WorkspaceId DatasetId)) (\<lambda>(GatewayId, DataSourceId).
     then_run (construct_payload env pbi_svc (GatewayType w) GatewayId
                 ServicePrincipalApplicationId ServicePrincipalSecret)
       (\<lambda>(Credentials, EncryptionAlgorithm).
     then_run (invoke (Call_UpdateDatasetDatasource GatewayId DataSourceId Credentials
                   EncryptionAlgorithm)
                 (UpdateDatasetDatasource pbi_svc GatewayId DataSourceId Credentials
                   EncryptionAlgorithm)) (\<lambda>u.
       if RefreshDataset_widget w = ''true''
       then invoke (Call_RefreshDataset WorkspaceId DatasetId)
              (RefreshDataset pbi_svc WorkspaceId DatasetId)
       else silent (Inr ())))))"

text \<open>Cells 8 to 11 and the rest: the Power BI tasks, from the application id and the new
  secret on.\<close>

definition powerbi_tasks :: "notebook_env \<Rightarrow> widgets \<Rightarrow> string \<Rightarrow> string \<Rightarrow> unit run" where
  "powerbi_tasks env w ServicePrincipalApplicationId ServicePrincipalSecret =
     then_run (silent (secrets_get env (SecretScope w) (ClientIdSecret w))) (\<lambda>PowerBIClientId.
     then_run (silent (secrets_get env (SecretScope w) (SecretSecret w))) (\<lambda>PowerBIClientSecret.
     then_run (silent (secrets_get env (SecretScope w) (TenantIdSecret w))) (\<lambda>PowerBITenantId.
       let pbi_svc = CreateCredential (nb_reporting_api env) PowerBITenantId PowerBIClientId
                       PowerBIClientSecret
       in
     then_run (invoke (Call_GetWorkspaceId (Workspace w))
                 (GetWorkspaceId pbi_svc (Workspace w))) (\<lambda>WorkspaceId.
     then_run (invoke (Call_GetDatasetId WorkspaceId (Dataset w))
                 (GetDatasetId pbi_svc WorkspaceId (Dataset w))) (\<lambda>DatasetId.
       publish_tasks env w pbi_svc ServicePrincipalApplicationId ServicePrincipalSecret
         WorkspaceId DatasetId)))))"

text \<open>The whole notebook, cells 4 to 16.\<close>

definition notebook :: "notebook_env \<Rightarrow> widgets \<Rightarrow> unit run" where
  "notebook env w =
     (let dbx_svc = CreateClient (nb_workspace_client env) in
      then_run (invoke (Call_CheckServicePrincipal (ServicePrincipal w))
                  (CheckServicePrincipal dbx_svc (ServicePrincipal w)))
        (\<lambda>(ServicePrincipalApplicationId, ServicePrincipaId).
      then_run (invoke (Call_CheckServicePrincipalSecret ServicePrincipaId)
                  (CheckServicePrincipalSecret dbx_svc ServicePrincipaId)) (\<lambda>u.
      then_run (invoke (Call_GenerateServicePrincipalSecret ServicePrincipaId (Lifetime w))
                  (GenerateServicePrincipalSecret dbx_svc ServicePrincipaId (Lifetime w)))
        (\<lambda>ServicePrincipalSecret.
      then_run (invoke (Call_GrantPermissionsOnWarehouse ServicePrincipalApplicationId
                    (WarehouseId w))
                  (GrantPermissionsOnWarehouse dbx_svc ServicePrincipalApplicationId
                    (WarehouseId w))) (\<lambda>u.
        powerbi_tasks env w ServicePrincipalApplicationId ServicePrincipalSecret)))))"

section \<open>Observing a run\<close>

text \<open>The calls of a run that satisfy a predicate, in the order they were made.\<close>

definition calls_where :: "(call \<Rightarrow> bool) \<Rightarrow> 'a run \<Rightarrow> (call \<times> outcome) list" where
  "calls_where P m = filter (\<lambda>cr. P (fst cr)) (fst m)"

fun is_publish_or_refresh :: "call \<Rightarrow> bool" where
  "is_publish_or_refresh (Call_UpdateDatasetDatasource g d c a) = True"
| "is_publish_or_refresh (Call_RefreshDataset ws ds) = True"
| "is_publish_or_refresh c = False"

fun is_takeover_or_datasource :: "call \<Rightarrow> bool" where
  "is_takeover_or_datasource (Call_TakOverDataset ws ds) = True"
| "is_takeover_or_datasource (Call_GetDatasetDatasource ws ds) = True"
| "is_takeover_or_datasource c = False"

fun is_key_fetch :: "call \<Rightarrow> bool" where
  "is_key_fetch (Call_GetGatewayPublicKey g) = True"
| "is_key_fetch c = False"

text \<open>The calls of cells 4 to 11.\<close>

fun early_call :: "call \<Rightarrow> bool" where
  "early_call (Call_CheckServicePrincipal n) = True"
| "early_call (Call_CheckServicePrincipalSecret i) = True"
| "early_call (Call_GenerateServicePrincipalSecret i l) = True"
| "early_call (Call_GrantPermissionsOnWarehouse a wh) = True"
| "early_call (Call_GetWorkspaceId n) = True"
| "early_call (Call_GetDatasetId ws n) = True"
| "early_call c = False"

text \<open>A run of the notebook either stops in cells 4 to 11, with an exception and before the
  dataset is resolved, or goes on with cells 12 to 16.\<close>

definition stops_early :: "unit run \<Rightarrow> bool" where
  "stops_early m \<longleftrightarrow>
     (\<exists>e. snd m = Inl e) \<and> (\<forall>cr\<in>set (fst m). early_call (fst cr)) \<and>
     (\<forall>ws n. (Call_GetDatasetId ws n, Returned) \<notin> set (fst m))"

definition reaches_publish :: "notebook_env \<Rightarrow> widgets \<Rightarrow> unit run \<Rightarrow> bool" where
  "reaches_publish env w m \<longleftrightarrow>
     (\<exists>pre pbi app sec ws ds.
        fst m = pre @ fst (publish_tasks env w pbi app sec ws ds) \<and>
        snd m = snd (publish_tasks env w pbi app sec ws ds) \<and>
        (\<forall>cr\<in>set pre. early_call (fst cr)))"

section \<open>Reading the listings\<close>









section \<open>The credential object of the specification\<close>

text \<open>
  The specification gives the credential payload as the JSON object
  \<^verbatim>\<open>{"credentialData":[{"name":"username","value":applicationId},
  {"name":"password","value":secretValue}]}\<close>.
  To compare a text with it, the text is split into the tokens of JSON: the six
  punctuation marks and the strings, with white space between tokens dropped. Numbers
  and literals do not occur in the credential object and are not tokens here. The quote
  character is a parameter, so that a text written with single quotes can be read too.
  Two texts with the same tokens have the same keys, the same values and the same
  structure.
\<close>

datatype token = LBrace | RBrace | LBracket | RBracket | Colon | Comma | Str string

datatype lex_state = Outside | Inside string | Escaped string

fun lex :: "char \<Rightarrow> lex_state \<Rightarrow> string \<Rightarrow> token list option" where
  "lex q Outside [] = Some []"
| "lex q (Inside acc) [] = None"
| "lex q (Escaped acc) [] = None"
| "lex q Outside (c # cs) =
     (if c = q then lex q (Inside []) cs
      else if c = CHR ''{'' then map_option ((#) LBrace) (lex q Outside cs)
      else if c = CHR ''}'' then map_option ((#) RBrace) (lex q Outside cs)
      else if c = CHR ''['' then map_option ((#) LBracket) (lex q Outside cs)
      else if c = CHR '']'' then map_option ((#) RBracket) (lex q Outside cs)
      else if c = CHR '':'' then map_option ((#) Colon) (lex q Outside cs)
      else if c = CHR '','' then map_option ((#) Comma) (lex q Outside cs)
      else if c = CHR '' '' \<or> c = CHR 0x09 \<or> c = CHR 0x0A \<or> c = CHR 0x0D
        then lex q Outside cs
      else None)"
| "lex q (Inside acc) (c # cs) =
     (if c = q then map_option ((#) (Str (rev acc))) (lex q Outside cs)
      else if c = CHR 0x5C then lex q (Escaped (c # acc)) cs
      else lex q (Inside (c # acc)) cs)"
| "lex q (Escaped acc) (c # cs) = lex q (Inside (c # acc)) cs"

definition json_tokens :: "char \<Rightarrow> string \<Rightarrow> token list option" where
  "json_tokens q s = lex q Outside s"

text \<open>A value that needs no escaping between quotes \<open>q\<close>: it has neither the quote nor a
  backslash. Application ids and generated secrets are such values.\<close>

definition unescaped :: "char \<Rightarrow> string \<Rightarrow> bool" where
  "unescaped q s \<longleftrightarrow> q \<notin> set s \<and> CHR 0x5C \<notin> set s"

definition credential_object_tokens :: "string \<Rightarrow> string \<Rightarrow> token list" where
  "credential_object_tokens applicationId secretValue =
     [LBrace, Str ''credentialData'', Colon, LBracket,
        LBrace, Str ''name'', Colon, Str ''username'', Comma,
                Str ''value'', Colon, Str applicationId, RBrace, Comma,
        LBrace, Str ''name'', Colon, Str ''password'', Comma,
                Str ''value'', Colon, Str secretValue, RBrace,
      RBracket, RBrace]"

section \<open>An example deployment\<close>

text \<open>
  A workspace whose lookup of \<open>svc-bi\<close> returns the given principals and where every
  principal has the given secrets; a reporting API with the workspace \<open>Sales\<close>, two
  datasets named \<open>Revenue\<close> with two Databricks datasources each and a dataset \<open>Costs\<close>
  with none, which answers the takeover and the credential update with the given status
  codes. The text of a successful response is not spelled out, only what \<open>json.loads\<close>
  makes of it.
\<close>

definition example_client :: "service_principal list \<Rightarrow> string list \<Rightarrow> workspace_client" where
  "example_client principals secrets =
     \<lparr>service_principals_list =
        (\<lambda>f. if f = ''displayName eq svc-bi'' then Inr principals else Inr []),
      service_principals_create =
        (\<lambda>n. Inr \<lparr>sp_application_id = ''app-9'', sp_id = ''109''\<rparr>),
      service_principal_secrets_list = (\<lambda>i. Inr secrets),
      service_principal_secrets_create = (\<lambda>i l. Inr ''dose1234''),
      warehouses_set_permissions = (\<lambda>a wh. Inr ())\<rparr>"

definition example_datasets :: "json list" where
  "example_datasets =
     [JObject [(''id'', JString ''ds-1''), (''name'', JString ''Revenue'')],
      JObject [(''id'', JString ''ds-2''), (''name'', JString ''Costs'')],
      JObject [(''id'', JString ''ds-3''), (''name'', JString ''Revenue'')]]"

definition example_datasources :: "json list" where
  "example_datasources =
     [JObject [(''connectionDetails'', JObject [(''kind'', JString ''Databricks'')]),
               (''gatewayId'', JString ''gw-1''), (''datasourceId'', JString ''src-1'')],
      JObject [(''connectionDetails'', JObject [(''kind'', JString ''Databricks'')]),
               (''gatewayId'', JString ''gw-2''), (''datasourceId'', JString ''src-2'')],
      JObject [(''connectionDetails'', JObject [(''kind'', JString ''Sql'')]),
               (''gatewayId'', JString ''gw-3''), (''datasourceId'', JString ''src-3'')]]"

definition example_sql_sources :: "json list" where
  "example_sql_sources =
     [JObject [(''connectionDetails'', JObject [(''kind'', JString ''Sql'')]),
               (''gatewayId'', JString ''gw-3''), (''datasourceId'', JString ''src-3'')]]"

definition ok_response :: "json \<Rightarrow> response" where
  "ok_response j = \<lparr>status_code = 200, text_of = ''(json)'', body = Some j\<rparr>"

definition status_response :: "int \<Rightarrow> string \<Rightarrow> response" where
  "status_response code msg = \<lparr>status_code = code, text_of = msg, body = None\<rparr>"

definition example_api :: "int \<Rightarrow> int \<Rightarrow> reporting_api" where
  "example_api takeover_status publish_status =
     \<lparr>token_post = (\<lambda>t c s. Inr (JObject [(''access_token'', JString ''token'')])),
      get_gateway = (\<lambda>g. Inr (ok_response (JObject [(''publicKey'',
         JObject [(''exponent'', JString ''AQAB''), (''modulus'', JString ''pQ'')])]))),
      get_datasets = (\<lambda>ws. Inr (ok_response (JObject [(''value'', JArray example_datasets)]))),
      get_groups =
        (\<lambda>n. if n = ''Sales''
              then Inr (ok_response (JObject [(''value'',
                     JArray [JObject [(''id'', JString ''ws-1''), (''name'', JString ''Sales'')]])]))
              else if n = ''Closed'' then Inr (status_response 401 ''Unauthorized'')
              else Inr (ok_response (JObject [(''value'', JArray [])]))),
      get_datasources =
        (\<lambda>ws ds. if ds = JString ''ds-2''
                 then Inr (ok_response (JObject [(''value'', JArray example_sql_sources)]))
                 else Inr (ok_response (JObject [(''value'', JArray example_datasources)]))),
      post_takeover = (\<lambda>ws ds. Inr (status_response takeover_status ''takeover'')),
      post_refreshes = (\<lambda>ws ds b. Inr (status_response 202 ''accepted'')),
      patch_datasource = (\<lambda>g d b. Inr (status_response publish_status ''Forbidden''))\<rparr>"

definition example_env ::
  "service_principal list \<Rightarrow> string list \<Rightarrow> int \<Rightarrow> int \<Rightarrow> notebook_env" where
  "example_env principals secrets takeover_status publish_status =
     \<lparr>nb_workspace_client = example_client principals secrets,
      nb_reporting_api = example_api takeover_status publish_status,
      secrets_get = (\<lambda>scope key. Inr key),
      EncodeCredentials = (\<lambda>key t. Inr ''ciphertext'')\<rparr>"

definition example_widgets :: "string \<Rightarrow> string \<Rightarrow> string \<Rightarrow> widgets" where
  "example_widgets workspace_name gateway_type refresh =
     \<lparr>ServicePrincipal = ''svc-bi'', WarehouseId = ''wh-1'', Workspace = workspace_name,
      Dataset = ''Revenue'', GatewayType = gateway_type, Lifetime = ''604800'',
      RefreshDataset_widget = refresh, SecretScope = ''scope'', ClientIdSecret = ''client'',
      SecretSecret = ''secret'', TenantIdSecret = ''tenant''\<rparr>"

definition example_principal :: service_principal where
  "example_principal = \<lparr>sp_application_id = ''app-1'', sp_id = ''101''\<rparr>"

definition example_service :: "int \<Rightarrow> int \<Rightarrow> PowerbiService" where
  "example_service takeover_status publish_status =
     CreateCredential (example_api takeover_status publish_status) ''tenant'' ''client'' ''secret''"

section \<open>Lemmas on the two services\<close>

lemma principals_loop_last:
  "sps \<noteq> [] \<Longrightarrow>
     principals_loop sps a i = (Some (sp_application_id (last sps)), Some (sp_id (last sps)))"
  by (induction sps arbitrary: a i) auto








lemma CheckServicePrincipalSecret_cap:
  assumes "service_principal_secrets_list (dbx_workspace_client self) spid = Inr secrets"
    and "length secrets \<ge> max_secrets self"
  shows "CheckServicePrincipalSecret self spid = Inl (ValueError (cap_message spid (max_secrets self)))"
  using assms by (simp add: CheckServicePrincipalSecret_def)

lemma example_header:
  "GetRequestHeader (example_service t p) =
     Inr [(''Content-Type'', ''application/json''), (''Authorization'', ''Bearer token'')]"
  by (simp add: GetRequestHeader_def GetAccessToken_def example_service_def CreateCredential_def
        example_api_def)


section \<open>Claims on the two services\<close>

text \<open>
  Claim C4 says that of several principals returned by the lookup the first one is taken.
  In a workspace where the lookup of \<open>svc-bi\<close> returns \<open>app-1\<close> and then \<open>app-2\<close>, the
  scan returns \<open>app-2\<close>: each principal of the listing overwrites the one before.
\<close>

theorem ensure_principal_first_match_counterexample:
  "service_principals_list
       (dbx_workspace_client (CreateClient (example_client
          [\<lparr>sp_application_id = ''app-1'', sp_id = ''101''\<rparr>,
           \<lparr>sp_application_id = ''app-2'', sp_id = ''102''\<rparr>] [])))
       (''displayName eq '' @ ''svc-bi'')
     = Inr [\<lparr>sp_application_id = ''app-1'', sp_id = ''101''\<rparr>,
            \<lparr>sp_application_id = ''app-2'', sp_id = ''102''\<rparr>]
   \<and> CheckServicePrincipal (CreateClient (example_client
          [\<lparr>sp_application_id = ''app-1'', sp_id = ''101''\<rparr>,
           \<lparr>sp_application_id = ''app-2'', sp_id = ''102''\<rparr>] [])) ''svc-bi''
     = Inr (''app-2'', ''102'')
   \<and> CheckServicePrincipal (CreateClient (example_client
          [\<lparr>sp_application_id = ''app-1'', sp_id = ''101''\<rparr>,
           \<lparr>sp_application_id = ''app-2'', sp_id = ''102''\<rparr>] [])) ''svc-bi''
     \<noteq> Inr (''app-1'', ''101'')"
  by (simp add: CheckServicePrincipal_def CreateClient_def example_client_def)

text \<open>
  Claim C4, amended. \<open>CheckServicePrincipal\<close> looks the principal up with the filter
  \<open>displayName eq name\<close>. When the lookup returns one or more principals it returns the
  application id and the id of the last one; when it returns none it creates a principal
  with that display name and returns the ids of the created principal.
\<close>

theorem ensure_principal_last_match:
  "(service_principals_list (dbx_workspace_client self) (''displayName eq '' @ name) = Inr sps
      \<and> sps \<noteq> [] \<longrightarrow>
      CheckServicePrincipal self name = Inr (sp_application_id (last sps), sp_id (last sps)))
   \<and> (service_principals_list (dbx_workspace_client self) (''displayName eq '' @ name) = Inr []
      \<and> service_principals_create (dbx_workspace_client self) name = Inr created \<longrightarrow>
      CheckServicePrincipal self name = Inr (sp_application_id created, sp_id created))"
  by (simp add: CheckServicePrincipal_def principals_loop_last)

theorem ensure_principal_last_match_witness:
  "CheckServicePrincipal (CreateClient (example_client
          [\<lparr>sp_application_id = ''app-1'', sp_id = ''101''\<rparr>,
           \<lparr>sp_application_id = ''app-2'', sp_id = ''102''\<rparr>] [])) ''svc-bi''
     = Inr (''app-2'', ''102'')
   \<and> CheckServicePrincipal (CreateClient (example_client [] [])) ''svc-bi''
     = Inr (''app-9'', ''109'')"
proof -
  have l2: "service_principals_list
       (dbx_workspace_client (CreateClient (example_client
          [\<lparr>sp_application_id = ''app-1'', sp_id = ''101''\<rparr>,
           \<lparr>sp_application_id = ''app-2'', sp_id = ''102''\<rparr>] [])))
       (''displayName eq '' @ ''svc-bi'')
     = Inr [\<lparr>sp_application_id = ''app-1'', sp_id = ''101''\<rparr>,
            \<lparr>sp_application_id = ''app-2'', sp_id = ''102''\<rparr>]
     \<and> [\<lparr>sp_application_id = ''app-1'', sp_id = ''101''\<rparr>,
            \<lparr>sp_application_id = ''app-2'', sp_id = ''102''\<rparr>] \<noteq> []"
    by (simp add: CreateClient_def example_client_def)
  have l0: "service_principals_list (dbx_workspace_client (CreateClient (example_client [] [])))
       (''displayName eq '' @ ''svc-bi'') = Inr []
     \<and> service_principals_create (dbx_workspace_client (CreateClient (example_client [] [])))
         ''svc-bi'' = Inr \<lparr>sp_application_id = ''app-9'', sp_id = ''109''\<rparr>"
    by (simp add: CreateClient_def example_client_def)
  show ?thesis
    using l2 l0
      ensure_principal_last_match [of "CreateClient (example_client
          [\<lparr>sp_application_id = ''app-1'', sp_id = ''101''\<rparr>,
           \<lparr>sp_application_id = ''app-2'', sp_id = ''102''\<rparr>] [])" "''svc-bi''"
          "[\<lparr>sp_application_id = ''app-1'', sp_id = ''101''\<rparr>,
            \<lparr>sp_application_id = ''app-2'', sp_id = ''102''\<rparr>]"]
      ensure_principal_last_match [of "CreateClient (example_client [] [])" "''svc-bi''" _
          "\<lparr>sp_application_id = ''app-9'', sp_id = ''109''\<rparr>"]
    by simp
qed








text \<open>
  Claim C6. Once the request is answered, \<open>GetWorkspaceId\<close> raises an error carrying the
  status code and the response text when the status is not 200, raises the error that the
  workspace does not exist or is not accessible when the filtered lookup returns no match,
  and returns the id of the match when it returns exactly one.
\<close>

theorem resolve_workspace:
  assumes "GetRequestHeader self = Inr h"
    and "get_groups (pbi_api self) workspace_name = Inr resp"
  shows "(status_code resp \<noteq> 200 \<longrightarrow>
            GetWorkspaceId self workspace_name =
              Inl (ValueError (''Error retrieving the workspace id, the status code is ''
                @ str_int (status_code resp) @ '' and the error message is '' @ text_of resp)))
       \<and> (status_code resp = 200 \<and> body resp = Some j
            \<and> py_getitem j ''value'' = Inr (JArray []) \<longrightarrow>
            GetWorkspaceId self workspace_name =
              Inl (ValueError (''Workspace '' @ workspace_name
                @ '' does not exist or the service principal '' @ client_id self
                @ '' does not have access to it'')))
       \<and> (status_code resp = 200 \<and> body resp = Some j
            \<and> py_getitem j ''value'' = Inr (JArray [match])
            \<and> py_getitem match ''id'' = Inr workspace_id \<longrightarrow>
            GetWorkspaceId self workspace_name = Inr workspace_id)"
  using assms
  by (simp add: GetWorkspaceId_def json_loads_def workspace_status_message_def
        workspace_missing_message_def)

lemma str_int_401: "str_int 401 = ''401''"
  by (simp add: str_int_def str_nat.simps digit_char_def)

theorem resolve_workspace_witness:
  "GetWorkspaceId (example_service 200 200) ''Closed'' =
     Inl (ValueError ''Error retrieving the workspace id, the status code is 401 and the error message is Unauthorized'')
   \<and> GetWorkspaceId (example_service 200 200) ''Acme'' =
     Inl (ValueError ''Workspace Acme does not exist or the service principal client does not have access to it'')
   \<and> GetWorkspaceId (example_service 200 200) ''Sales'' = Inr (JString ''ws-1'')"
proof -
  have h: "GetRequestHeader (example_service 200 200) =
     Inr [(''Content-Type'', ''application/json''), (''Authorization'', ''Bearer token'')]"
    by (rule example_header)
  have c: "get_groups (pbi_api (example_service 200 200)) ''Closed''
      = Inr (status_response 401 ''Unauthorized'')"
    by (simp add: example_service_def CreateCredential_def example_api_def)
  have a: "get_groups (pbi_api (example_service 200 200)) ''Acme''
      = Inr (ok_response (JObject [(''value'', JArray [])]))"
    by (simp add: example_service_def CreateCredential_def example_api_def)
  have s: "get_groups (pbi_api (example_service 200 200)) ''Sales''
      = Inr (ok_response (JObject [(''value'',
               JArray [JObject [(''id'', JString ''ws-1''), (''name'', JString ''Sales'')]])]))"
    by (simp add: example_service_def CreateCredential_def example_api_def)
  have cid: "client_id (example_service 200 200) = ''client''"
    by (simp add: example_service_def CreateCredential_def)
  show ?thesis
    using resolve_workspace [OF h c] 
      resolve_workspace [OF h a, of "JObject [(''value'', JArray [])]"]
      resolve_workspace [OF h s, of "JObject [(''value'',
               JArray [JObject [(''id'', JString ''ws-1''), (''name'', JString ''Sales'')]])]"
            "JObject [(''id'', JString ''ws-1''), (''name'', JString ''Sales'')]" "JString ''ws-1''"]
    by (simp add: status_response_def ok_response_def str_int_401 cid)
qed



section \<open>Lemmas on runs\<close>

lemma then_invoke_Inl: "then_run (invoke c (Inl e)) f = ([(c, Raised e)], Inl e)"
  by (simp add: then_run_def invoke_def outcome_of_def)

lemma then_invoke_Inr: "then_run (invoke c (Inr x)) f = ((c, Returned) # fst (f x), snd (f x))"
  by (simp add: then_run_def invoke_def outcome_of_def)

lemma then_silent_Inr: "then_run (silent (Inr x)) f = f x"
  by (simp add: then_run_def silent_def)

lemma snd_then_run:
  "snd (then_run m f) = (case snd m of Inl e \<Rightarrow> Inl e | Inr x \<Rightarrow> snd (f x))"
  by (simp add: then_run_def split: sum.splits)

lemma snd_invoke: "snd (invoke c r) = r"
  by (simp add: invoke_def)

lemma snd_silent: "snd (silent r) = r"
  by (simp add: silent_def)

lemma outcome_of_simps: "outcome_of (Inl e) = Raised e" "outcome_of (Inr x) = Returned"
  by (simp_all add: outcome_of_def)

lemma calls_where_then_run:
  "calls_where P (then_run m f) =
     calls_where P m @ (case snd m of Inl e \<Rightarrow> [] | Inr x \<Rightarrow> calls_where P (f x))"
  by (simp add: calls_where_def then_run_def split: sum.splits)

lemma calls_where_invoke:
  "calls_where P (invoke c r) = (if P c then [(c, outcome_of r)] else [])"
  by (simp add: calls_where_def invoke_def)

lemma calls_where_silent: "calls_where P (silent r) = []"
  by (simp add: calls_where_def silent_def)

lemma calls_where_if:
  "calls_where P (if b then m else m') = (if b then calls_where P m else calls_where P m')"
  by simp

lemma calls_where_prod:
  "calls_where P (case p of (a, b) \<Rightarrow> f a b) = (case p of (a, b) \<Rightarrow> calls_where P (f a b))"
  by (simp split: prod.splits)

lemma snd_if: "snd (if b then m else m') = (if b then snd m else snd m')"
  by simp

lemma snd_prod: "snd (case p of (a, b) \<Rightarrow> f a b) = (case p of (a, b) \<Rightarrow> snd (f a b))"
  by (simp split: prod.splits)

lemmas calls_simps = calls_where_then_run calls_where_invoke calls_where_silent calls_where_if
  calls_where_prod snd_then_run snd_invoke snd_silent snd_if snd_prod outcome_of_simps

lemma calls_where_mem: "(c, r) \<in> set (calls_where P m) \<longleftrightarrow> P c \<and> (c, r) \<in> set (fst m)"
  by (auto simp: calls_where_def)

subsection \<open>The two ways a run of the notebook goes\<close>

lemma stage_silent:
  assumes "\<And>x. r = Inr x \<Longrightarrow> stops_early (f x) \<or> reaches_publish env w (f x)"
  shows "stops_early (then_run (silent r) f) \<or> reaches_publish env w (then_run (silent r) f)"
proof (cases r)
  case (Inl e)
  then show ?thesis by (simp add: stops_early_def then_run_def silent_def)
next
  case (Inr x)
  then show ?thesis using assms [OF Inr] by (simp add: then_silent_Inr)
qed

lemma stage_invoke:
  assumes early: "early_call c" and other: "\<forall>ws n. c \<noteq> Call_GetDatasetId ws n"
    and rest: "\<And>x. r = Inr x \<Longrightarrow> stops_early (f x) \<or> reaches_publish env w (f x)"
  shows "stops_early (then_run (invoke c r) f) \<or> reaches_publish env w (then_run (invoke c r) f)"
proof (cases r)
  case (Inl e)
  then show ?thesis using early other
    by (simp add: stops_early_def then_invoke_Inl)
next
  case (Inr x)
  then have run: "then_run (invoke c r) f = ((c, Returned) # fst (f x), snd (f x))"
    by (simp add: then_invoke_Inr)
  from rest [OF Inr] show ?thesis
  proof
    assume "stops_early (f x)"
    then have "stops_early (then_run (invoke c r) f)"
      using early other by (auto simp: run stops_early_def)
    then show ?thesis ..
  next
    assume "reaches_publish env w (f x)"
    then obtain pre pbi app sec ws ds where
      "fst (f x) = pre @ fst (publish_tasks env w pbi app sec ws ds)"
      "snd (f x) = snd (publish_tasks env w pbi app sec ws ds)"
      "\<forall>cr\<in>set pre. early_call (fst cr)"
      unfolding reaches_publish_def by blast
    then have "fst (then_run (invoke c r) f)
          = ((c, Returned) # pre) @ fst (publish_tasks env w pbi app sec ws ds)
        \<and> snd (then_run (invoke c r) f) = snd (publish_tasks env w pbi app sec ws ds)
        \<and> (\<forall>cr\<in>set ((c, Returned) # pre). early_call (fst cr))"
      using early by (simp add: run)
    then have "reaches_publish env w (then_run (invoke c r) f)"
      unfolding reaches_publish_def by blast
    then show ?thesis ..
  qed
qed

lemma stage_dataset:
  "stops_early (then_run (invoke (Call_GetDatasetId ws n) r) (publish_tasks env w pbi app sec ws))
   \<or> reaches_publish env w
        (then_run (invoke (Call_GetDatasetId ws n) r) (publish_tasks env w pbi app sec ws))"
proof (cases r)
  case (Inl e)
  then show ?thesis
    by (simp add: stops_early_def then_invoke_Inl)
next
  case (Inr ds)
  then have "fst (then_run (invoke (Call_GetDatasetId ws n) r) (publish_tasks env w pbi app sec ws))
        = [(Call_GetDatasetId ws n, Returned)] @ fst (publish_tasks env w pbi app sec ws ds)
      \<and> snd (then_run (invoke (Call_GetDatasetId ws n) r) (publish_tasks env w pbi app sec ws))
        = snd (publish_tasks env w pbi app sec ws ds)
      \<and> (\<forall>cr\<in>set [(Call_GetDatasetId ws n, Returned)]. early_call (fst cr))"
    by (simp add: then_invoke_Inr)
  then have "reaches_publish env w
        (then_run (invoke (Call_GetDatasetId ws n) r) (publish_tasks env w pbi app sec ws))"
    unfolding reaches_publish_def by blast
  then show ?thesis ..
qed

lemma powerbi_tasks_stages:
  "stops_early (powerbi_tasks env w app sec) \<or> reaches_publish env w (powerbi_tasks env w app sec)"
  unfolding powerbi_tasks_def Let_def
  by (intro stage_silent stage_invoke stage_dataset) simp_all

lemma notebook_stages:
  "stops_early (notebook env w) \<or> reaches_publish env w (notebook env w)"
  unfolding notebook_def Let_def
  apply (rule stage_invoke, simp, simp)
  apply (simp only: split_paired_all prod.case)
  apply (intro stage_invoke powerbi_tasks_stages; simp)
  done

lemma calls_where_stops_early:
  assumes "stops_early m" and "\<And>c. P c \<Longrightarrow> \<not> early_call c"
  shows "calls_where P m = []"
  using assms by (auto simp: calls_where_def stops_early_def filter_empty_conv)

lemma calls_where_reaches_publish:
  assumes "reaches_publish env w m" and "\<And>c. P c \<Longrightarrow> \<not> early_call c"
  shows "\<exists>pbi app sec ws ds.
           calls_where P m = calls_where P (publish_tasks env w pbi app sec ws ds) \<and>
           snd m = snd (publish_tasks env w pbi app sec ws ds)"
proof -
  from assms(1) obtain pre pbi app sec ws ds where
    f: "fst m = pre @ fst (publish_tasks env w pbi app sec ws ds)" and
    s: "snd m = snd (publish_tasks env w pbi app sec ws ds)" and
    e: "\<forall>cr\<in>set pre. early_call (fst cr)"
    unfolding reaches_publish_def by blast
  have "filter (\<lambda>cr. P (fst cr)) pre = []"
    using e assms(2) by (auto simp: filter_empty_conv)
  then have "calls_where P m = calls_where P (publish_tasks env w pbi app sec ws ds)"
    by (simp add: calls_where_def f)
  with s show ?thesis by blast
qed

subsection \<open>Cells 12 to 16\<close>

lemma publish_refresh_shape:
  "calls_where is_publish_or_refresh (publish_tasks env w pbi app sec ws ds) = []
   \<or> (\<exists>g d c a e. calls_where is_publish_or_refresh (publish_tasks env w pbi app sec ws ds)
          = [(Call_UpdateDatasetDatasource g d c a, Raised e)]
        \<and> snd (publish_tasks env w pbi app sec ws ds) = Inl e)
   \<or> (\<exists>g d c a. RefreshDataset_widget w \<noteq> ''true''
        \<and> calls_where is_publish_or_refresh (publish_tasks env w pbi app sec ws ds)
          = [(Call_UpdateDatasetDatasource g d c a, Returned)])
   \<or> (\<exists>g d c a r. RefreshDataset_widget w = ''true''
        \<and> calls_where is_publish_or_refresh (publish_tasks env w pbi app sec ws ds)
          = [(Call_UpdateDatasetDatasource g d c a, Returned), (Call_RefreshDataset ws ds, r)])"
  unfolding publish_tasks_def construct_payload_def
  by (simp add: calls_simps split: sum.splits prod.splits)

lemma publish_takeover_shape:
  "(GatewayType w \<noteq> ''NoGateway'' \<longrightarrow>
      (\<exists>r. calls_where is_takeover_or_datasource (publish_tasks env w pbi app sec ws ds)
         = [(Call_GetDatasetDatasource ws ds, r)]))
   \<and> (GatewayType w = ''NoGateway'' \<longrightarrow>
      (\<exists>e. calls_where is_takeover_or_datasource (publish_tasks env w pbi app sec ws ds)
             = [(Call_TakOverDataset ws ds, Raised e)]
           \<and> snd (publish_tasks env w pbi app sec ws ds) = Inl e)
      \<or> (\<exists>r. calls_where is_takeover_or_datasource (publish_tasks env w pbi app sec ws ds)
             = [(Call_TakOverDataset ws ds, Returned), (Call_GetDatasetDatasource ws ds, r)]))"
  unfolding publish_tasks_def construct_payload_def
  by (simp add: calls_simps split: sum.splits prod.splits)

lemma publish_key_fetch:
  "GatewayType w \<noteq> ''Onpremises'' \<Longrightarrow>
     calls_where is_key_fetch (publish_tasks env w pbi app sec ws ds) = []"
  unfolding publish_tasks_def construct_payload_def
  by (simp add: calls_simps split: sum.splits prod.splits)

lemma late_publish_or_refresh: "is_publish_or_refresh c \<Longrightarrow> \<not> early_call c"
  by (cases c) simp_all

lemma late_takeover_or_datasource: "is_takeover_or_datasource c \<Longrightarrow> \<not> early_call c"
  by (cases c) simp_all

lemma late_key_fetch: "is_key_fetch c \<Longrightarrow> \<not> early_call c"
  by (cases c) simp_all

lemma notebook_refresh_shape:
  "calls_where is_publish_or_refresh (notebook env w) = []
   \<or> (\<exists>g d c a e. calls_where is_publish_or_refresh (notebook env w)
          = [(Call_UpdateDatasetDatasource g d c a, Raised e)]
        \<and> snd (notebook env w) = Inl e)
   \<or> (\<exists>g d c a. RefreshDataset_widget w \<noteq> ''true''
        \<and> calls_where is_publish_or_refresh (notebook env w)
          = [(Call_UpdateDatasetDatasource g d c a, Returned)])
   \<or> (\<exists>g d c a ws ds r. RefreshDataset_widget w = ''true''
        \<and> calls_where is_publish_or_refresh (notebook env w)
          = [(Call_UpdateDatasetDatasource g d c a, Returned), (Call_RefreshDataset ws ds, r)])"
proof -
  from notebook_stages [of env w] show ?thesis
  proof
    assume "stops_early (notebook env w)"
    then show ?thesis using calls_where_stops_early late_publish_or_refresh by blast
  next
    assume "reaches_publish env w (notebook env w)"
    then obtain pbi app sec ws ds where
      "calls_where is_publish_or_refresh (notebook env w)
         = calls_where is_publish_or_refresh (publish_tasks env w pbi app sec ws ds)"
      "snd (notebook env w) = snd (publish_tasks env w pbi app sec ws ds)"
      using calls_where_reaches_publish late_publish_or_refresh by blast
    then show ?thesis
      using publish_refresh_shape [of env w pbi app sec ws ds] by metis
  qed
qed

lemma notebook_takeover_shape:
  "(GatewayType w \<noteq> ''NoGateway'' \<longrightarrow>
      calls_where is_takeover_or_datasource (notebook env w) = []
      \<or> (\<exists>ws ds r. calls_where is_takeover_or_datasource (notebook env w)
         = [(Call_GetDatasetDatasource ws ds, r)]))
   \<and> (GatewayType w = ''NoGateway'' \<longrightarrow>
      (calls_where is_takeover_or_datasource (notebook env w) = []
         \<and> (\<forall>ws n. (Call_GetDatasetId ws n, Returned) \<notin> set (fst (notebook env w))))
      \<or> (\<exists>ws ds e. calls_where is_takeover_or_datasource (notebook env w)
             = [(Call_TakOverDataset ws ds, Raised e)]
           \<and> snd (notebook env w) = Inl e)
      \<or> (\<exists>ws ds r. calls_where is_takeover_or_datasource (notebook env w)
             = [(Call_TakOverDataset ws ds, Returned), (Call_GetDatasetDatasource ws ds, r)]))"
proof -
  from notebook_stages [of env w] show ?thesis
  proof
    assume early: "stops_early (notebook env w)"
    then have "calls_where is_takeover_or_datasource (notebook env w) = []"
      using calls_where_stops_early late_takeover_or_datasource by blast
    moreover have "\<forall>ws n. (Call_GetDatasetId ws n, Returned) \<notin> set (fst (notebook env w))"
      using early by (simp add: stops_early_def)
    ultimately show ?thesis by simp
  next
    assume "reaches_publish env w (notebook env w)"
    then obtain pbi app sec ws ds where
      "calls_where is_takeover_or_datasource (notebook env w)
         = calls_where is_takeover_or_datasource (publish_tasks env w pbi app sec ws ds)"
      "snd (notebook env w) = snd (publish_tasks env w pbi app sec ws ds)"
      using calls_where_reaches_publish late_takeover_or_datasource by blast
    then show ?thesis
      using publish_takeover_shape [of w env pbi app sec ws ds] by metis
  qed
qed

lemma notebook_key_fetch:
  assumes "GatewayType w \<noteq> ''Onpremises''"
  shows "calls_where is_key_fetch (notebook env w) = []"
proof -
  from notebook_stages [of env w] show ?thesis
  proof
    assume "stops_early (notebook env w)"
    then show ?thesis using calls_where_stops_early late_key_fetch by blast
  next
    assume "reaches_publish env w (notebook env w)"
    then obtain pbi app sec ws ds where
      "calls_where is_key_fetch (notebook env w)
         = calls_where is_key_fetch (publish_tasks env w pbi app sec ws ds)"
      using calls_where_reaches_publish late_key_fetch by blast
    then show ?thesis
      using publish_key_fetch [OF assms] by simp
  qed
qed

section \<open>Claims on the notebook\<close>

text \<open>
  Claim C1. When the principal found in cell 4 has five or more secrets,
  \<open>CheckServicePrincipalSecret\<close> raises the error of the cap, the notebook ends with that
  error after the two calls of cells 4 and 5, and \<open>GenerateServicePrincipalSecret\<close> is not
  called in the run.
\<close>

theorem capacity_check_stops_rotation:
  assumes "CheckServicePrincipal (CreateClient (nb_workspace_client env)) (ServicePrincipal w)
             = Inr (app, spid)"
    and "service_principal_secrets_list (nb_workspace_client env) spid = Inr secrets"
    and "length secrets \<ge> 5"
  shows "CheckServicePrincipalSecret (CreateClient (nb_workspace_client env)) spid
           = Inl (ValueError (cap_message spid 5))
     \<and> notebook env w =
         ([(Call_CheckServicePrincipal (ServicePrincipal w), Returned),
           (Call_CheckServicePrincipalSecret spid, Raised (ValueError (cap_message spid 5)))],
          Inl (ValueError (cap_message spid 5)))
     \<and> (\<forall>i l r. (Call_GenerateServicePrincipalSecret i l, r) \<notin> set (fst (notebook env w)))"
proof -
  have cap: "CheckServicePrincipalSecret (CreateClient (nb_workspace_client env)) spid
           = Inl (ValueError (cap_message spid 5))"
    using CheckServicePrincipalSecret_cap [of "CreateClient (nb_workspace_client env)" spid secrets]
      assms(2,3) by (simp add: CreateClient_def)
  have run: "notebook env w =
         ([(Call_CheckServicePrincipal (ServicePrincipal w), Returned),
           (Call_CheckServicePrincipalSecret spid, Raised (ValueError (cap_message spid 5)))],
          Inl (ValueError (cap_message spid 5)))"
    unfolding notebook_def Let_def
    by (simp only: assms(1) cap then_invoke_Inr then_invoke_Inl prod.case fst_conv snd_conv)
  show ?thesis using cap run by simp
qed

lemma cap_message_101:
  "cap_message ''101'' 5 = ''Service Principal 101 has already 5 secrets. Creating more than 5 secrets is not supported. Please delete some of the secrets to continue.''"
  by (simp add: cap_message_def str_nat.simps digit_char_def)

theorem capacity_check_stops_rotation_witness:
  "notebook (example_env [example_principal] [''k1'', ''k2'', ''k3'', ''k4'', ''k5''] 200 200)
       (example_widgets ''Sales'' ''NoGateway'' ''true'')
     = ([(Call_CheckServicePrincipal ''svc-bi'', Returned),
         (Call_CheckServicePrincipalSecret ''101'', Raised (ValueError
           ''Service Principal 101 has already 5 secrets. Creating more than 5 secrets is not supported. Please delete some of the secrets to continue.''))],
        Inl (ValueError
           ''Service Principal 101 has already 5 secrets. Creating more than 5 secrets is not supported. Please delete some of the secrets to continue.''))"
proof -
  have p: "CheckServicePrincipal
       (CreateClient (nb_workspace_client
          (example_env [example_principal] [''k1'', ''k2'', ''k3'', ''k4'', ''k5''] 200 200)))
       (ServicePrincipal (example_widgets ''Sales'' ''NoGateway'' ''true''))
     = Inr (''app-1'', ''101'')"
    by (simp add: CheckServicePrincipal_def CreateClient_def example_env_def example_client_def
          example_widgets_def example_principal_def)
  have s: "service_principal_secrets_list (nb_workspace_client
          (example_env [example_principal] [''k1'', ''k2'', ''k3'', ''k4'', ''k5''] 200 200)) ''101''
     = Inr [''k1'', ''k2'', ''k3'', ''k4'', ''k5'']"
    by (simp add: example_env_def example_client_def)
  have n: "length [''k1'', ''k2'', ''k3'', ''k4'', ''k5''] \<ge> 5"
    by simp
  show ?thesis
    using capacity_check_stops_rotation [OF p s n]
    by (simp add: cap_message_101 example_widgets_def)
qed

subsection \<open>Runs of the example deployment\<close>

lemmas example_defs = example_env_def example_client_def example_api_def example_widgets_def
  example_principal_def example_service_def example_datasets_def example_datasources_def
  example_sql_sources_def ok_response_def status_response_def

lemmas service_defs = CreateClient_def CheckServicePrincipal_def CheckServicePrincipalSecret_def
  GenerateServicePrincipalSecret_def GrantPermissionsOnWarehouse_def CreateCredential_def
  GetAccessToken_def GetRequestHeader_def GetGatewayPublicKey_def GetDatasetId_def
  GetWorkspaceId_def GetDatasetDatasource_def TakOverDataset_def RefreshDataset_def
  UpdateDatasetDatasource_def json_loads_def

lemmas notebook_defs = notebook_def powerbi_tasks_def publish_tasks_def construct_payload_def
  then_run_def invoke_def silent_def outcome_of_def Let_def

lemma str_int_403: "str_int 403 = ''403''"
  by (simp add: str_int_def str_nat.simps digit_char_def)

lemma example_run_rejected:
  "notebook (example_env [example_principal] [''k1''] 200 403)
       (example_widgets ''Sales'' ''NoGateway'' ''true'')
     = ([(Call_CheckServicePrincipal ''svc-bi'', Returned),
         (Call_CheckServicePrincipalSecret ''101'', Returned),
         (Call_GenerateServicePrincipalSecret ''101'' ''604800'', Returned),
         (Call_GrantPermissionsOnWarehouse ''app-1'' ''wh-1'', Returned),
         (Call_GetWorkspaceId ''Sales'', Returned),
         (Call_GetDatasetId (JString ''ws-1'') ''Revenue'', Returned),
         (Call_TakOverDataset (JString ''ws-1'') (JString ''ds-3''), Returned),
         (Call_GetDatasetDatasource (JString ''ws-1'') (JString ''ds-3''), Returned),
         (Call_UpdateDatasetDatasource (JString ''gw-2'') (JString ''src-2'')
            (plaintext_credentials ''app-1'' ''dose1234'') ''None'',
          Raised (ValueError ''Error updating the datasource, the status code is 403 and the error message is Forbidden''))],
        Inl (ValueError ''Error updating the datasource, the status code is 403 and the error message is Forbidden''))"
  by (simp add: notebook_defs service_defs example_defs update_message_def str_int_403)


lemma example_run_published:
  "notebook (example_env [example_principal] [''k1''] 200 200)
       (example_widgets ''Sales'' ''NoGateway'' ''true'')
     = ([(Call_CheckServicePrincipal ''svc-bi'', Returned),
         (Call_CheckServicePrincipalSecret ''101'', Returned),
         (Call_GenerateServicePrincipalSecret ''101'' ''604800'', Returned),
         (Call_GrantPermissionsOnWarehouse ''app-1'' ''wh-1'', Returned),
         (Call_GetWorkspaceId ''Sales'', Returned),
         (Call_GetDatasetId (JString ''ws-1'') ''Revenue'', Returned),
         (Call_TakOverDataset (JString ''ws-1'') (JString ''ds-3''), Returned),
         (Call_GetDatasetDatasource (JString ''ws-1'') (JString ''ds-3''), Returned),
         (Call_UpdateDatasetDatasource (JString ''gw-2'') (JString ''src-2'')
            (plaintext_credentials ''app-1'' ''dose1234'') ''None'', Returned),
         (Call_RefreshDataset (JString ''ws-1'') (JString ''ds-3''), Returned)],
        Inr ())"
  by (simp add: notebook_defs service_defs example_defs)

text \<open>
  Claim C8. \<open>TakOverDataset\<close> is not called when the gateway type is not \<open>NoGateway\<close>.
  When it is \<open>NoGateway\<close>, the calls of \<open>TakOverDataset\<close> and \<open>GetDatasetDatasource\<close> in a
  run are: none, and then the run never resolved the dataset; or one takeover that raised,
  which ends the run with its error; or one takeover that returned, followed by one
  datasource resolution for the same workspace and dataset. \<open>TakOverDataset\<close> raises the
  error of the missing permission when the request is answered with a status other than
  200.
\<close>

theorem takeover_once_before_datasource:
  "(GatewayType w \<noteq> ''NoGateway'' \<longrightarrow>
      (\<forall>ws ds r. (Call_TakOverDataset ws ds, r) \<notin> set (fst (notebook env w))))
   \<and> (GatewayType w = ''NoGateway'' \<longrightarrow>
      (calls_where is_takeover_or_datasource (notebook env w) = []
         \<and> (\<forall>ws n. (Call_GetDatasetId ws n, Returned) \<notin> set (fst (notebook env w))))
      \<or> (\<exists>ws ds e. calls_where is_takeover_or_datasource (notebook env w)
             = [(Call_TakOverDataset ws ds, Raised e)]
           \<and> snd (notebook env w) = Inl e)
      \<or> (\<exists>ws ds r. calls_where is_takeover_or_datasource (notebook env w)
             = [(Call_TakOverDataset ws ds, Returned), (Call_GetDatasetDatasource ws ds, r)]))
   \<and> (GetRequestHeader self = Inr h \<and> post_takeover (pbi_api self) ws' ds' = Inr resp
        \<and> status_code resp \<noteq> 200 \<longrightarrow>
      TakOverDataset self ws' ds' =
        Inl (ValueError (''Service Principal '' @ client_id self
          @ '' does not have permissions to take over the dataset'')))"
proof (intro conjI)
  show "GatewayType w \<noteq> ''NoGateway'' \<longrightarrow>
      (\<forall>ws ds r. (Call_TakOverDataset ws ds, r) \<notin> set (fst (notebook env w)))"
  proof (intro impI allI notI)
    fix ws ds r
    assume mode: "GatewayType w \<noteq> ''NoGateway''"
      and "(Call_TakOverDataset ws ds, r) \<in> set (fst (notebook env w))"
    then have "(Call_TakOverDataset ws ds, r)
        \<in> set (calls_where is_takeover_or_datasource (notebook env w))"
      by (simp add: calls_where_mem)
    moreover from mode have "calls_where is_takeover_or_datasource (notebook env w) = []
      \<or> (\<exists>ws ds r. calls_where is_takeover_or_datasource (notebook env w)
         = [(Call_GetDatasetDatasource ws ds, r)])"
      using notebook_takeover_shape [of w env] by blast
    ultimately show False by auto
  qed
next
  show "GatewayType w = ''NoGateway'' \<longrightarrow>
      (calls_where is_takeover_or_datasource (notebook env w) = []
         \<and> (\<forall>ws n. (Call_GetDatasetId ws n, Returned) \<notin> set (fst (notebook env w))))
      \<or> (\<exists>ws ds e. calls_where is_takeover_or_datasource (notebook env w)
             = [(Call_TakOverDataset ws ds, Raised e)]
           \<and> snd (notebook env w) = Inl e)
      \<or> (\<exists>ws ds r. calls_where is_takeover_or_datasource (notebook env w)
             = [(Call_TakOverDataset ws ds, Returned), (Call_GetDatasetDatasource ws ds, r)])"
    using notebook_takeover_shape [of w env] by blast
next
  show "GetRequestHeader self = Inr h \<and> post_takeover (pbi_api self) ws' ds' = Inr resp
        \<and> status_code resp \<noteq> 200 \<longrightarrow>
      TakOverDataset self ws' ds' =
        Inl (ValueError (''Service Principal '' @ client_id self
          @ '' does not have permissions to take over the dataset''))"
    by (simp add: TakOverDataset_def takeover_message_def)
qed

theorem takeover_once_before_datasource_witness:
  "(\<forall>ws ds r. (Call_TakOverDataset ws ds, r) \<notin> set (fst
       (notebook (example_env [example_principal] [''k1''] 200 200)
          (example_widgets ''Sales'' ''VNET'' ''true''))))
   \<and> calls_where is_takeover_or_datasource
         (notebook (example_env [example_principal] [''k1''] 200 200)
            (example_widgets ''Sales'' ''NoGateway'' ''true''))
       = [(Call_TakOverDataset (JString ''ws-1'') (JString ''ds-3''), Returned),
          (Call_GetDatasetDatasource (JString ''ws-1'') (JString ''ds-3''), Returned)]
   \<and> TakOverDataset (example_service 403 200) (JString ''ws-1'') (JString ''ds-3'') =
        Inl (ValueError
          ''Service Principal client does not have permissions to take over the dataset'')"
proof -
  have vnet: "GatewayType (example_widgets ''Sales'' ''VNET'' ''true'') \<noteq> ''NoGateway''"
    by (simp add: example_widgets_def)
  have h: "GetRequestHeader (example_service 403 200) =
     Inr [(''Content-Type'', ''application/json''), (''Authorization'', ''Bearer token'')]"
    by (rule example_header)
  have denied: "post_takeover (pbi_api (example_service 403 200)) (JString ''ws-1'')
        (JString ''ds-3'') = Inr (status_response 403 ''takeover'')
      \<and> status_code (status_response 403 ''takeover'') \<noteq> 200
      \<and> client_id (example_service 403 200) = ''client''"
    by (simp add: example_service_def CreateCredential_def example_api_def status_response_def)
  have calls: "calls_where is_takeover_or_datasource
         (notebook (example_env [example_principal] [''k1''] 200 200)
            (example_widgets ''Sales'' ''NoGateway'' ''true''))
       = [(Call_TakOverDataset (JString ''ws-1'') (JString ''ds-3''), Returned),
          (Call_GetDatasetDatasource (JString ''ws-1'') (JString ''ds-3''), Returned)]"
    by (simp add: example_run_published calls_where_def)
  show ?thesis
    using vnet h denied calls
      takeover_once_before_datasource [of "example_widgets ''Sales'' ''VNET'' ''true''"
        "example_env [example_principal] [''k1''] 200 200" "example_service 403 200" _
        "JString ''ws-1''" "JString ''ds-3''" "status_response 403 ''takeover''"]
      takeover_once_before_datasource [of "example_widgets ''Sales'' ''NoGateway'' ''true''"
        "example_env [example_principal] [''k1''] 200 200" "example_service 403 200" _
        "JString ''ws-1''" "JString ''ds-3''" "status_response 403 ''takeover''"]
    by simp
qed

text \<open>
  Claim C9. \<open>RefreshDataset\<close> is called in a run exactly when the refresh widget is \<open>true\<close>
  and \<open>UpdateDatasetDatasource\<close> was called and returned. When the update raises, the run
  ends with that error and \<open>RefreshDataset\<close> is not called. The update raises, once the
  request is answered with a status other than 200, an error whose message carries the
  status code and the response text.
\<close>

theorem refresh_gated_by_publish:
  "((\<exists>ws ds r. (Call_RefreshDataset ws ds, r) \<in> set (fst (notebook env w))) \<longleftrightarrow>
      RefreshDataset_widget w = ''true'' \<and>
      (\<exists>g d c a. (Call_UpdateDatasetDatasource g d c a, Returned) \<in> set (fst (notebook env w))))
   \<and> (\<forall>g d c a e. (Call_UpdateDatasetDatasource g d c a, Raised e) \<in> set (fst (notebook env w))
        \<longrightarrow> snd (notebook env w) = Inl e
          \<and> (\<forall>ws ds r. (Call_RefreshDataset ws ds, r) \<notin> set (fst (notebook env w))))
   \<and> (GetRequestHeader self = Inr h
        \<and> patch_datasource (pbi_api self) g' d' (credential_details c' a') = Inr resp
        \<and> status_code resp \<noteq> 200 \<longrightarrow>
      UpdateDatasetDatasource self g' d' c' a' =
        Inl (ValueError (''Error updating the datasource, the status code is ''
          @ str_int (status_code resp) @ '' and the error message is '' @ text_of resp)))"
proof -
  let ?T = "calls_where is_publish_or_refresh (notebook env w)"
  have refresh: "\<And>ws ds r. (Call_RefreshDataset ws ds, r) \<in> set (fst (notebook env w))
      \<longleftrightarrow> (Call_RefreshDataset ws ds, r) \<in> set ?T"
    by (simp add: calls_where_mem)
  have update: "\<And>g d c a r. (Call_UpdateDatasetDatasource g d c a, r) \<in> set (fst (notebook env w))
      \<longleftrightarrow> (Call_UpdateDatasetDatasource g d c a, r) \<in> set ?T"
    by (simp add: calls_where_mem)
  consider (none) "?T = []"
    | (raised) g d c a e where "?T = [(Call_UpdateDatasetDatasource g d c a, Raised e)]"
        "snd (notebook env w) = Inl e"
    | (quiet) g d c a where "RefreshDataset_widget w \<noteq> ''true''"
        "?T = [(Call_UpdateDatasetDatasource g d c a, Returned)]"
    | (refreshed) g d c a ws ds r where "RefreshDataset_widget w = ''true''"
        "?T = [(Call_UpdateDatasetDatasource g d c a, Returned), (Call_RefreshDataset ws ds, r)]"
    using notebook_refresh_shape [of env w] by blast
  then have "((\<exists>ws ds r. (Call_RefreshDataset ws ds, r) \<in> set ?T) \<longleftrightarrow>
      RefreshDataset_widget w = ''true'' \<and>
      (\<exists>g d c a. (Call_UpdateDatasetDatasource g d c a, Returned) \<in> set ?T))
   \<and> (\<forall>g d c a e. (Call_UpdateDatasetDatasource g d c a, Raised e) \<in> set ?T
        \<longrightarrow> snd (notebook env w) = Inl e
          \<and> (\<forall>ws ds r. (Call_RefreshDataset ws ds, r) \<notin> set ?T))"
    by cases auto
  moreover have "GetRequestHeader self = Inr h
        \<and> patch_datasource (pbi_api self) g' d' (credential_details c' a') = Inr resp
        \<and> status_code resp \<noteq> 200 \<longrightarrow>
      UpdateDatasetDatasource self g' d' c' a' =
        Inl (ValueError (''Error updating the datasource, the status code is ''
          @ str_int (status_code resp) @ '' and the error message is '' @ text_of resp))"
    by (simp add: UpdateDatasetDatasource_def update_message_def)
  ultimately show ?thesis
    unfolding refresh update by blast
qed

theorem refresh_gated_by_publish_witness:
  "snd (notebook (example_env [example_principal] [''k1''] 200 403)
          (example_widgets ''Sales'' ''NoGateway'' ''true''))
     = Inl (ValueError ''Error updating the datasource, the status code is 403 and the error message is Forbidden'')
   \<and> (\<forall>ws ds r. (Call_RefreshDataset ws ds, r) \<notin> set (fst
         (notebook (example_env [example_principal] [''k1''] 200 403)
            (example_widgets ''Sales'' ''NoGateway'' ''true''))))
   \<and> (\<exists>ws ds r. (Call_RefreshDataset ws ds, r) \<in> set (fst
         (notebook (example_env [example_principal] [''k1''] 200 200)
            (example_widgets ''Sales'' ''NoGateway'' ''true''))))
   \<and> UpdateDatasetDatasource (example_service 200 403) (JString ''gw-2'') (JString ''src-2'')
         (plaintext_credentials ''app-1'' ''dose1234'') ''None''
     = Inl (ValueError ''Error updating the datasource, the status code is 403 and the error message is Forbidden'')"
proof -
  have raised: "(Call_UpdateDatasetDatasource (JString ''gw-2'') (JString ''src-2'')
            (plaintext_credentials ''app-1'' ''dose1234'') ''None'',
          Raised (ValueError ''Error updating the datasource, the status code is 403 and the error message is Forbidden''))
      \<in> set (fst (notebook (example_env [example_principal] [''k1''] 200 403)
            (example_widgets ''Sales'' ''NoGateway'' ''true'')))"
    by (simp add: example_run_rejected)
  have flag: "RefreshDataset_widget (example_widgets ''Sales'' ''NoGateway'' ''true'') = ''true''"
    by (simp add: example_widgets_def)
  have returned: "(Call_UpdateDatasetDatasource (JString ''gw-2'') (JString ''src-2'')
            (plaintext_credentials ''app-1'' ''dose1234'') ''None'', Returned)
      \<in> set (fst (notebook (example_env [example_principal] [''k1''] 200 200)
            (example_widgets ''Sales'' ''NoGateway'' ''true'')))"
    by (simp add: example_run_published)
  have h: "GetRequestHeader (example_service 200 403) =
     Inr [(''Content-Type'', ''application/json''), (''Authorization'', ''Bearer token'')]"
    by (rule example_header)
  have rejected: "patch_datasource (pbi_api (example_service 200 403)) (JString ''gw-2'')
        (JString ''src-2'') (credential_details (plaintext_credentials ''app-1'' ''dose1234'') ''None'')
        = Inr (status_response 403 ''Forbidden'')
      \<and> status_code (status_response 403 ''Forbidden'') \<noteq> 200
      \<and> text_of (status_response 403 ''Forbidden'') = ''Forbidden''
      \<and> status_code (status_response 403 ''Forbidden'') = 403"
    by (simp add: example_service_def CreateCredential_def example_api_def status_response_def)
  have r1: "snd (notebook (example_env [example_principal] [''k1''] 200 403)
          (example_widgets ''Sales'' ''NoGateway'' ''true''))
     = Inl (ValueError ''Error updating the datasource, the status code is 403 and the error message is Forbidden'')
   \<and> (\<forall>ws ds r. (Call_RefreshDataset ws ds, r) \<notin> set (fst
         (notebook (example_env [example_principal] [''k1''] 200 403)
            (example_widgets ''Sales'' ''NoGateway'' ''true''))))"
    using raised
      refresh_gated_by_publish [of "example_env [example_principal] [''k1''] 200 403"
        "example_widgets ''Sales'' ''NoGateway'' ''true''", THEN conjunct2, THEN conjunct1]
    by blast
  have r2: "\<exists>ws ds r. (Call_RefreshDataset ws ds, r) \<in> set (fst
         (notebook (example_env [example_principal] [''k1''] 200 200)
            (example_widgets ''Sales'' ''NoGateway'' ''true'')))"
    using flag returned
      refresh_gated_by_publish [of "example_env [example_principal] [''k1''] 200 200"
        "example_widgets ''Sales'' ''NoGateway'' ''true''", THEN conjunct1]
    by blast
  have r3: "UpdateDatasetDatasource (example_service 200 403) (JString ''gw-2'') (JString ''src-2'')
         (plaintext_credentials ''app-1'' ''dose1234'') ''None''
     = Inl (ValueError ''Error updating the datasource, the status code is 403 and the error message is Forbidden'')"
    using h rejected
      refresh_gated_by_publish [of _ _ "example_service 200 403" _ "JString ''gw-2''"
        "JString ''src-2''" "plaintext_credentials ''app-1'' ''dose1234''" "''None''"
        "status_response 403 ''Forbidden''"]
    by (simp add: str_int_403)
  show ?thesis using r1 r2 r3 by blast
qed

section \<open>Claims on the credential payload\<close>

lemma lex_inside_unescaped:
  "unescaped q s \<Longrightarrow> lex q (Inside acc) (s @ rest) = lex q (Inside (rev s @ acc)) rest"
  by (induction s arbitrary: acc) (auto simp: unescaped_def)

lemma plaintext_tokens:
  assumes "unescaped (CHR 0x22) app" and "unescaped (CHR 0x22) sec"
  shows "json_tokens (CHR 0x22) (plaintext_credentials app sec)
           = Some (credential_object_tokens app sec)"
  using assms
  by (simp add: json_tokens_def plaintext_credentials_def credential_object_tokens_def
        lex_inside_unescaped)

lemma onpremises_tokens:
  assumes "unescaped (CHR 0x27) app" and "unescaped (CHR 0x27) sec"
  shows "json_tokens (CHR 0x27) (onpremises_text app sec)
           = Some (credential_object_tokens app sec)"
  using assms
  by (simp add: json_tokens_def onpremises_text_def credential_object_tokens_def
        lex_inside_unescaped)

lemma default_branch:
  "mode \<noteq> ''Onpremises'' \<Longrightarrow>
     construct_payload env pbi mode gw app sec
       = ([], Inr (plaintext_credentials app sec, ''None''))"
  by (simp add: construct_payload_def silent_def)

text \<open>
  Claim C2 says that a gateway type other than the three of the widget makes cell 14 fail.
  With the gateway type \<open>Hybrid\<close> the cell builds the plaintext credentials with the
  algorithm \<open>None\<close>, and the notebook runs to its end.
\<close>

theorem unsupported_mode_rejected_counterexample:
  "''Hybrid'' \<notin> {''NoGateway'', ''Onpremises'', ''VNET''}
   \<and> construct_payload (example_env [example_principal] [''k1''] 200 200)
         (example_service 200 200) ''Hybrid'' (JString ''gw-2'') ''app-1'' ''dose1234''
       = ([], Inr (plaintext_credentials ''app-1'' ''dose1234'', ''None''))
   \<and> snd (notebook (example_env [example_principal] [''k1''] 200 200)
            (example_widgets ''Sales'' ''Hybrid'' ''true'')) = Inr ()"
  by (simp add: notebook_defs service_defs example_defs)

text \<open>
  Claim C2, amended. For every gateway type other than \<open>NoGateway\<close>, \<open>Onpremises\<close> and
  \<open>VNET\<close>, cell 14 raises nothing and calls nothing: it takes the branch of \<open>NoGateway\<close> and
  \<open>VNET\<close>, giving the plaintext credentials and the algorithm \<open>None\<close>.
\<close>

theorem unrecognised_mode_defaults_to_plaintext:
  assumes "mode \<notin> {''NoGateway'', ''Onpremises'', ''VNET''}"
  shows "construct_payload env pbi mode gw app sec
           = ([], Inr (plaintext_credentials app sec, ''None''))"
  using assms by (simp add: default_branch)

theorem unrecognised_mode_defaults_to_plaintext_witness:
  "construct_payload (example_env [example_principal] [''k1''] 200 200)
         (example_service 200 200) ''Hybrid'' (JString ''gw-2'') ''app-1'' ''dose1234''
       = ([], Inr (plaintext_credentials ''app-1'' ''dose1234'', ''None''))"
proof -
  have "''Hybrid'' \<notin> {''NoGateway'', ''Onpremises'', ''VNET''}"
    by simp
  then show ?thesis
    by (rule unrecognised_mode_defaults_to_plaintext)
qed

text \<open>
  Claim C3 says that the text encrypted for \<open>Onpremises\<close> is the same double-quoted JSON as
  the plaintext case. The text handed to \<open>EncodeCredentials\<close> has no double quote at all:
  read as JSON it has no tokens, while the plaintext credentials have those of the
  credential object.
\<close>

theorem onpremises_double_quoted_counterexample:
  \<open>fst (construct_payload (example_env [example_principal] [''k1''] 200 200)
         (example_service 200 200) ''Onpremises'' (JString ''gw-2'') ''app-1'' ''dose1234'')
     = [(Call_GetGatewayPublicKey (JString ''gw-2''), Returned),
        (Call_EncodeCredentials
           (JObject [(''exponent'', JString ''AQAB''), (''modulus'', JString ''pQ'')])
           ''{'credentialData':[{'name':'username','value':'app-1'},{'name':'password','value':'dose1234'}]}'',
         Returned)]
   \<and> json_tokens (CHR 0x22)
         ''{'credentialData':[{'name':'username','value':'app-1'},{'name':'password','value':'dose1234'}]}''
       = None
   \<and> plaintext_credentials ''app-1'' ''dose1234''
       = ''{"credentialData":[{"name":"username", "value": "app-1"},{"name":"password", "value": "dose1234"}]}''
   \<and> json_tokens (CHR 0x22) (plaintext_credentials ''app-1'' ''dose1234'')
       = Some (credential_object_tokens ''app-1'' ''dose1234'')\<close>
  by (simp add: construct_payload_def then_run_def invoke_def silent_def outcome_of_def
        service_defs example_defs onpremises_text_def plaintext_credentials_def json_tokens_def
        credential_object_tokens_def)

text \<open>
  Claim C3, amended. For \<open>Onpremises\<close>, once the gateway's public key is fetched and the
  encryption returns, cell 14 has encrypted a text under that key and set the algorithm to
  \<open>RSA-OAEP\<close>. The text has the keys, the values and the structure of the credential
  object, written with single-quoted strings and no white space; it is not double-quoted
  JSON.
\<close>

theorem onpremises_payload:
  assumes "GetGatewayPublicKey pbi gw = Inr key"
    and "EncodeCredentials env key (onpremises_text app sec) = Inr blob"
  shows "construct_payload env pbi ''Onpremises'' gw app sec
           = ([(Call_GetGatewayPublicKey gw, Returned),
               (Call_EncodeCredentials key (onpremises_text app sec), Returned)],
              Inr (blob, ''RSA-OAEP''))
     \<and> (unescaped (CHR 0x27) app \<and> unescaped (CHR 0x27) sec \<longrightarrow>
          json_tokens (CHR 0x27) (onpremises_text app sec)
            = Some (credential_object_tokens app sec))
     \<and> json_tokens (CHR 0x22) (onpremises_text app sec) = None"
proof (intro conjI impI)
  show "construct_payload env pbi ''Onpremises'' gw app sec
           = ([(Call_GetGatewayPublicKey gw, Returned),
               (Call_EncodeCredentials key (onpremises_text app sec), Returned)],
              Inr (blob, ''RSA-OAEP''))"
    using assms
    by (simp add: construct_payload_def then_run_def invoke_def silent_def outcome_of_def)
next
  assume "unescaped (CHR 0x27) app \<and> unescaped (CHR 0x27) sec"
  then show "json_tokens (CHR 0x27) (onpremises_text app sec)
            = Some (credential_object_tokens app sec)"
    by (simp add: onpremises_tokens)
next
  show "json_tokens (CHR 0x22) (onpremises_text app sec) = None"
    by (simp add: json_tokens_def onpremises_text_def)
qed

theorem onpremises_payload_witness:
  "construct_payload (example_env [example_principal] [''k1''] 200 200)
       (example_service 200 200) ''Onpremises'' (JString ''gw-2'') ''app-1'' ''dose1234''
     = ([(Call_GetGatewayPublicKey (JString ''gw-2''), Returned),
         (Call_EncodeCredentials
            (JObject [(''exponent'', JString ''AQAB''), (''modulus'', JString ''pQ'')])
            (onpremises_text ''app-1'' ''dose1234''), Returned)],
        Inr (''ciphertext'', ''RSA-OAEP''))
   \<and> json_tokens (CHR 0x27) (onpremises_text ''app-1'' ''dose1234'')
     = Some (credential_object_tokens ''app-1'' ''dose1234'')"
proof -
  have key: "GetGatewayPublicKey (example_service 200 200) (JString ''gw-2'')
      = Inr (JObject [(''exponent'', JString ''AQAB''), (''modulus'', JString ''pQ'')])"
    by (simp add: service_defs example_defs)
  have enc: "EncodeCredentials (example_env [example_principal] [''k1''] 200 200)
        (JObject [(''exponent'', JString ''AQAB''), (''modulus'', JString ''pQ'')])
        (onpremises_text ''app-1'' ''dose1234'') = Inr ''ciphertext''"
    by (simp add: example_env_def)
  have plain: "unescaped (CHR 0x27) ''app-1'' \<and> unescaped (CHR 0x27) ''dose1234''"
    by (simp add: unescaped_def)
  show ?thesis
    using plain onpremises_payload [OF key enc] by simp
qed

text \<open>
  Claim C7. For \<open>NoGateway\<close> and for \<open>VNET\<close>, cell 14 makes no call, so it does not fetch
  the gateway's public key, and gives the plaintext credentials with the algorithm
  \<open>None\<close>; no run of the notebook with such a gateway type calls \<open>GetGatewayPublicKey\<close>.
  For an application id and a secret that need no escaping, the credentials are the
  credential object of the specification, with the application id as the user name and
  the secret as the password.
\<close>

theorem plaintext_modes:
  assumes "mode = ''NoGateway'' \<or> mode = ''VNET''"
  shows "construct_payload env pbi mode gw app sec
           = ([], Inr (plaintext_credentials app sec, ''None''))
     \<and> (unescaped (CHR 0x22) app \<and> unescaped (CHR 0x22) sec \<longrightarrow>
          json_tokens (CHR 0x22) (plaintext_credentials app sec)
            = Some (credential_object_tokens app sec))
     \<and> (GatewayType w = mode \<longrightarrow>
          (\<forall>g r. (Call_GetGatewayPublicKey g, r) \<notin> set (fst (notebook env w))))"
proof (intro conjI impI allI)
  from assms have "mode \<noteq> ''Onpremises''" by auto
  then show "construct_payload env pbi mode gw app sec
           = ([], Inr (plaintext_credentials app sec, ''None''))"
    by (rule default_branch)
next
  assume "unescaped (CHR 0x22) app \<and> unescaped (CHR 0x22) sec"
  then show "json_tokens (CHR 0x22) (plaintext_credentials app sec)
            = Some (credential_object_tokens app sec)"
    by (simp add: plaintext_tokens)
next
  fix g r
  assume "GatewayType w = mode"
  with assms have "GatewayType w \<noteq> ''Onpremises''" by auto
  then have "calls_where is_key_fetch (notebook env w) = []"
    by (rule notebook_key_fetch)
  then have "(Call_GetGatewayPublicKey g, r) \<notin> set (calls_where is_key_fetch (notebook env w))"
    by simp
  then show "(Call_GetGatewayPublicKey g, r) \<notin> set (fst (notebook env w))"
    by (simp add: calls_where_mem)
qed

theorem plaintext_modes_witness:
  \<open>construct_payload (example_env [example_principal] [''k1''] 200 200)
       (example_service 200 200) ''NoGateway'' (JString ''gw-2'') ''app-1'' ''dose1234''
     = ([], Inr (''{"credentialData":[{"name":"username", "value": "app-1"},{"name":"password", "value": "dose1234"}]}'',
                 ''None''))
   \<and> construct_payload (example_env [example_principal] [''k1''] 200 200)
       (example_service 200 200) ''VNET'' (JString ''gw-2'') ''app-1'' ''dose1234''
     = ([], Inr (''{"credentialData":[{"name":"username", "value": "app-1"},{"name":"password", "value": "dose1234"}]}'',
                 ''None''))
   \<and> json_tokens (CHR 0x22)
         ''{"credentialData":[{"name":"username", "value": "app-1"},{"name":"password", "value": "dose1234"}]}''
     = Some (credential_object_tokens ''app-1'' ''dose1234'')
   \<and> (\<forall>g r. (Call_GetGatewayPublicKey g, r) \<notin> set (fst
         (notebook (example_env [example_principal] [''k1''] 200 200)
            (example_widgets ''Sales'' ''VNET'' ''true''))))\<close>
proof -
  have credentials: \<open>plaintext_credentials ''app-1'' ''dose1234''
      = ''{"credentialData":[{"name":"username", "value": "app-1"},{"name":"password", "value": "dose1234"}]}''\<close>
    by (simp add: plaintext_credentials_def)
  have plain: "unescaped (CHR 0x22) ''app-1'' \<and> unescaped (CHR 0x22) ''dose1234''"
    by (simp add: unescaped_def)
  have mode: "GatewayType (example_widgets ''Sales'' ''VNET'' ''true'') = ''VNET''"
    by (simp add: example_widgets_def)
  have n: "''NoGateway'' = ''NoGateway'' \<or> ''NoGateway'' = ''VNET''"
    by simp
  have v: "''VNET'' = ''NoGateway'' \<or> ''VNET'' = ''VNET''"
    by simp
  show ?thesis
    using plain mode
      plaintext_modes [OF n, of "example_env [example_principal] [''k1''] 200 200"
        "example_service 200 200" "JString ''gw-2''" "''app-1''" "''dose1234''"
        "example_widgets ''Sales'' ''NoGateway'' ''true''"]
      plaintext_modes [OF v, of "example_env [example_principal] [''k1''] 200 200"
        "example_service 200 200" "JString ''gw-2''" "''app-1''" "''dose1234''"
        "example_widgets ''Sales'' ''VNET'' ''true''"]
    by (simp add: credentials)
qed

end
